theory Spec2Isabelle
  imports Main "HOL-Library.Char_ord"
begin

section \<open>Text\<close>

text \<open>
  Python text is modelled as \<open>string\<close>, a list of 8-bit characters holding the UTF-8
  encoding of the text. The character classes, the whitespace set and the case mapping below
  are those Python applies to ASCII; they are what Python computes on any text whose
  non-ASCII characters are neither whitespace, decimal digits nor cased letters, which covers
  the kana and kanji of this program's own labels. On the text matched by the patterns of this
  program (ASCII letters, digits, separators) the length in bytes is Python's \<open>len\<close>.
\<close>

definition is_upper :: "char \<Rightarrow> bool" where
  "is_upper c = (CHR ''A'' \<le> c \<and> c \<le> CHR ''Z'')"

definition is_lower :: "char \<Rightarrow> bool" where
  "is_lower c = (CHR ''a'' \<le> c \<and> c \<le> CHR ''z'')"

definition is_digit :: "char \<Rightarrow> bool" where
  "is_digit c = (CHR ''0'' \<le> c \<and> c \<le> CHR ''9'')"

text \<open>\<open>str.isspace\<close> on ASCII: TAB, LF, VT, FF, CR, FS, GS, RS, US and the space.\<close>

definition is_space :: "char \<Rightarrow> bool" where
  "is_space c = ((CHR 0x09 \<le> c \<and> c \<le> CHR 0x0D) \<or> (CHR 0x1C \<le> c \<and> c \<le> CHR 0x20))"

text \<open>
  The two cases of an ASCII letter differ in the bit of weight 32, which is set in the lower
  case: \<open>A\<close> is \<open>0x41\<close> and \<open>a\<close> is \<open>0x61\<close>.
\<close>

definition to_lower :: "char \<Rightarrow> char" where
  "to_lower c =
     (if is_upper c
      then (case c of Char b0 b1 b2 b3 b4 b5 b6 b7 \<Rightarrow> Char b0 b1 b2 b3 b4 True b6 b7)
      else c)"

definition to_upper :: "char \<Rightarrow> char" where
  "to_upper c =
     (if is_lower c
      then (case c of Char b0 b1 b2 b3 b4 b5 b6 b7 \<Rightarrow> Char b0 b1 b2 b3 b4 False b6 b7)
      else c)"

definition py_lower :: "string \<Rightarrow> string" where
  "py_lower s = map to_lower s"

definition py_upper :: "string \<Rightarrow> string" where
  "py_upper s = map to_upper s"

text \<open>\<open>s.strip()\<close>: whitespace removed at both ends.\<close>

definition py_strip :: "string \<Rightarrow> string" where
  "py_strip s = rev (dropWhile is_space (rev (dropWhile is_space s)))"

text \<open>\<open>sub in s\<close>: \<open>sub\<close> occurs in \<open>s\<close> as a contiguous substring.\<close>

fun py_in :: "string \<Rightarrow> string \<Rightarrow> bool" where
  "py_in sub [] = (sub = [])"
| "py_in sub (c # cs) = (take (length sub) (c # cs) = sub \<or> py_in sub cs)"

text \<open>\<open>s.split(',')\<close>: the pieces between commas, empty pieces included.\<close>

fun py_split :: "char \<Rightarrow> string \<Rightarrow> string list" where
  "py_split d [] = [[]]"
| "py_split d (c # cs) =
     (if c = d then [] # py_split d cs
      else (case py_split d cs of p # ps \<Rightarrow> (c # p) # ps | [] \<Rightarrow> [[c]]))"

text \<open>\<open>sep.join(xs)\<close>.\<close>

fun py_join :: "string \<Rightarrow> string list \<Rightarrow> string" where
  "py_join sep [] = []"
| "py_join sep [x] = x"
| "py_join sep (x # y # ys) = x @ sep @ py_join sep (y # ys)"

section \<open>Regular expressions\<close>

text \<open>
  The fragment of Python's \<open>re\<close> that the program's patterns use: character classes,
  concatenation, greedy bounded and unbounded repetition, and the start anchor.
  \<open>rmatch r ic n s\<close> lists, in the order in which the backtracking matcher tries them,
  the suffixes of \<open>s\<close> that remain after a match of \<open>r\<close> at the head of \<open>s\<close>;
  \<open>ic\<close> is the flag \<open>re.IGNORECASE\<close> and \<open>n\<close> the length of the whole subject,
  so that the anchor holds exactly where nothing has been consumed from the subject's start.
\<close>

datatype cls =
    Upper            \<comment> \<open>\<open>[A-Z]\<close>\<close>
  | Digit            \<comment> \<open>\<open>\d\<close>\<close>
  | Dot              \<comment> \<open>\<open>.\<close>\<close>
  | Space            \<comment> \<open>\<open>\s\<close>\<close>
  | Lit char         \<comment> \<open>a literal character\<close>
  | OneOf string     \<comment> \<open>\<open>[...]\<close>, a set of listed characters\<close>

fun cls_match :: "bool \<Rightarrow> cls \<Rightarrow> char \<Rightarrow> bool" where
  "cls_match ic Upper c = (is_upper c \<or> (ic \<and> is_lower c))"
| "cls_match ic Digit c = is_digit c"
| "cls_match ic Dot c = (c \<noteq> CHR 0x0A)"
| "cls_match ic Space c = is_space c"
| "cls_match ic (Lit x) c = (if ic then to_lower c = to_lower x else c = x)"
| "cls_match ic (OneOf xs) c =
     (if ic then to_lower c \<in> set (map to_lower xs) else c \<in> set xs)"

datatype rx =
    Atom cls
  | Eps
  | Bol                        \<comment> \<open>\<open>^\<close>\<close>
  | Seq rx rx
  | Rep rx nat "nat option"    \<comment> \<open>\<open>r{lo,hi}\<close>, greedy; no upper bound when \<open>None\<close>\<close>

text \<open>
  Greedy repetition of a matcher \<open>f\<close>: one more round is tried before stopping. A round
  has to consume something, so the length of the subject bounds the number of rounds.
\<close>

fun iter :: "(string \<Rightarrow> string list) \<Rightarrow> nat \<Rightarrow> nat \<Rightarrow> nat option \<Rightarrow> string \<Rightarrow> string list" where
  "iter f 0 lo hi s = (if lo = 0 then [s] else [])"
| "iter f (Suc k) lo hi s =
     (if hi = Some 0 then [s]
      else concat (map (iter f k (lo - 1) (map_option (\<lambda>h. h - 1) hi))
                       (filter (\<lambda>t. length t < length s) (f s)))
           @ (if lo = 0 then [s] else []))"

fun rmatch :: "rx \<Rightarrow> bool \<Rightarrow> nat \<Rightarrow> string \<Rightarrow> string list" where
  "rmatch (Atom c) ic n s =
     (case s of [] \<Rightarrow> [] | x # xs \<Rightarrow> if cls_match ic c x then [xs] else [])"
| "rmatch Eps ic n s = [s]"
| "rmatch Bol ic n s = (if length s = n then [s] else [])"
| "rmatch (Seq a b) ic n s = concat (map (rmatch b ic n) (rmatch a ic n s))"
| "rmatch (Rep r lo hi) ic n s = iter (rmatch r ic n) (length s) lo hi s"

definition cat :: "rx list \<Rightarrow> rx" where
  "cat rs = foldr Seq rs Eps"

definition rstar :: "rx \<Rightarrow> rx" where
  "rstar r = Rep r 0 None"

definition rplus :: "rx \<Rightarrow> rx" where
  "rplus r = Rep r 1 None"

definition ropt :: "rx \<Rightarrow> rx" where
  "ropt r = Rep r 0 (Some 1)"

definition lit :: "string \<Rightarrow> rx" where
  "lit s = cat (map (\<lambda>c. Atom (Lit c)) s)"

text \<open>
  \<open>re.findall\<close> for a pattern without capturing groups: scanning from the left, the first
  match at the leftmost position where there is one, then on from where it ended. After an
  empty match the scan moves on by one character.
\<close>

function findall_from :: "rx \<Rightarrow> bool \<Rightarrow> nat \<Rightarrow> string \<Rightarrow> string list" where
  "findall_from r ic n s =
     (case rmatch r ic n s of
        [] \<Rightarrow> (case s of [] \<Rightarrow> [] | _ # s' \<Rightarrow> findall_from r ic n s')
      | t # _ \<Rightarrow>
          if length t < length s
          then take (length s - length t) s # findall_from r ic n t
          else (case s of [] \<Rightarrow> [[]] | _ # s' \<Rightarrow> [] # findall_from r ic n s'))"
  by pat_completeness auto
termination
  by (relation "measure (\<lambda>(r, ic, n, s). length s)") auto

definition findall :: "rx \<Rightarrow> bool \<Rightarrow> string \<Rightarrow> string list" where
  "findall r ic s = findall_from r ic (length s) s"

text \<open>\<open>re.search\<close>, as a truth value: there is a match at some position.\<close>

fun search_from :: "rx \<Rightarrow> bool \<Rightarrow> nat \<Rightarrow> string \<Rightarrow> bool" where
  "search_from r ic n [] = (rmatch r ic n [] \<noteq> [])"
| "search_from r ic n (c # cs) = (rmatch r ic n (c # cs) \<noteq> [] \<or> search_from r ic n cs)"

definition search :: "rx \<Rightarrow> bool \<Rightarrow> string \<Rightarrow> bool" where
  "search r ic s = search_from r ic (length s) s"

section \<open>Values, errors and grids\<close>

text \<open>
  The exceptions the modelled code can raise. A function that can raise returns
  \<open>error + 'a\<close>, the error on the left.
\<close>

datatype error = ZeroDivisionError | IndexError | TypeError | AttributeError

text \<open>The values held by an output row: text and integers.\<close>

datatype pyval = Str string | Num int

type_synonym row_data = "string \<rightharpoonup> pyval"

text \<open>
  A grid (the \<open>DataFrame\<close>) is the list of its rows in order, each with its index label;
  every cell is text, as \<open>normalize_dataframe\<close> leaves it, so \<open>pd.isna\<close> is false
  on every cell and \<open>str(cell)\<close> is the cell.
\<close>

type_synonym dataframe = "(nat \<times> string list) list"

text \<open>\<open>df.iloc[i]\<close>: the row at position \<open>i\<close>, not the row labelled \<open>i\<close>.\<close>

definition iloc :: "dataframe \<Rightarrow> nat \<Rightarrow> error + string list" where
  "iloc df i = (if i < length df then Inr (snd (df ! i)) else Inl IndexError)"

text \<open>
  \<open>int(a / b)\<close> on integers: the quotient truncated towards zero. Python computes
  \<open>a / b\<close> in binary64; the rounding of that format is not modelled, the quotient is
  taken exactly, which is what Python returns when both operands are below \<open>2^53\<close> in
  magnitude.
\<close>

definition int_truediv :: "int \<Rightarrow> int \<Rightarrow> error + int" where
  "int_truediv a b =
     (if b = 0 then Inl ZeroDivisionError
      else Inr (sgn a * sgn b * (\<bar>a\<bar> div \<bar>b\<bar>)))"

section \<open>Labels of the output row\<close>

text \<open>
  The keys and labels of the program are Japanese text; each is given by its UTF-8 bytes,
  with its code points in the comment.
\<close>

definition k_no :: string where
  "k_no = ''No''"

definition k_maker :: string where \<comment> \<open>U+30E1 U+30FC U+30AB U+30FC, the manufacturer\<close>
  "k_maker = [CHR 0xE3, CHR 0x83, CHR 0xA1, CHR 0xE3, CHR 0x83, CHR 0xBC, CHR 0xE3, CHR 0x82,
              CHR 0xAB, CHR 0xE3, CHR 0x83, CHR 0xBC]"

definition k_hinmei :: string where \<comment> \<open>U+54C1 U+540D, the display name\<close>
  "k_hinmei = [CHR 0xE5, CHR 0x93, CHR 0x81, CHR 0xE5, CHR 0x90, CHR 0x8D]"

definition k_denshi :: string where
  \<comment> \<open>U+96FB U+5B50 U+90E8 U+54C1 U+578B U+756A, the part number\<close>
  "k_denshi = [CHR 0xE9, CHR 0x9B, CHR 0xBB, CHR 0xE5, CHR 0xAD, CHR 0x90, CHR 0xE9, CHR 0x83,
               CHR 0xA8, CHR 0xE5, CHR 0x93, CHR 0x81, CHR 0xE5, CHR 0x9E, CHR 0x8B, CHR 0xE7,
               CHR 0x95, CHR 0xAA]"

definition k_haichi :: string where
  \<comment> \<open>U+914D U+7F6E U+8A18 U+53F7, the reference designators\<close>
  "k_haichi = [CHR 0xE9, CHR 0x85, CHR 0x8D, CHR 0xE7, CHR 0xBD, CHR 0xAE, CHR 0xE8, CHR 0xA8,
               CHR 0x98, CHR 0xE5, CHR 0x8F, CHR 0xB7]"

definition k_ko :: string where \<comment> \<open>U+500B, pieces\<close>
  "k_ko = [CHR 0xE5, CHR 0x80, CHR 0x8B]"

definition k_jissousuu :: string where \<comment> \<open>U+5B9F U+88C5 U+6570, the quantity per unit\<close>
  "k_jissousuu = [CHR 0xE5, CHR 0xAE, CHR 0x9F, CHR 0xE8, CHR 0xA3, CHR 0x85, CHR 0xE6, CHR 0x95,
                  CHR 0xB0]"

definition k_goukei :: string where \<comment> \<open>U+5408 U+8A08, the total\<close>
  "k_goukei = [CHR 0xE5, CHR 0x90, CHR 0x88, CHR 0xE8, CHR 0xA8, CHR 0x88]"

definition k_jissou_kensa :: string where
  \<comment> \<open>U+5B9F U+88C5 U+002F U+691C U+67FB, the assembly flag\<close>
  "k_jissou_kensa = [CHR 0xE5, CHR 0xAE, CHR 0x9F, CHR 0xE8, CHR 0xA3, CHR 0x85, CHR 0x2F,
                     CHR 0xE6, CHR 0xA4, CHR 0x9C, CHR 0xE6, CHR 0x9F, CHR 0xBB]"

definition k_buhin :: string where
  \<comment> \<open>U+90E8 U+54C1 U+578B U+756A, the package type\<close>
  "k_buhin = [CHR 0xE9, CHR 0x83, CHR 0xA8, CHR 0xE5, CHR 0x93, CHR 0x81, CHR 0xE5, CHR 0x9E,
              CHR 0x8B, CHR 0xE7, CHR 0x95, CHR 0xAA]"

definition k_hitsuyou :: string where \<comment> \<open>U+5FC5 U+8981 U+6570, the required quantity\<close>
  "k_hitsuyou = [CHR 0xE5, CHR 0xBF, CHR 0x85, CHR 0xE8, CHR 0xA6, CHR 0x81, CHR 0xE6, CHR 0x95,
                 CHR 0xB0]"

definition v_jissou :: string where \<comment> \<open>U+5B9F U+88C5, "assemble"\<close>
  "v_jissou = [CHR 0xE5, CHR 0xAE, CHR 0x9F, CHR 0xE8, CHR 0xA3, CHR 0x85]"

definition v_teikou :: string where \<comment> \<open>U+62B5 U+6297, "resistor"\<close>
  "v_teikou = [CHR 0xE6, CHR 0x8A, CHR 0xB5, CHR 0xE6, CHR 0x8A, CHR 0x97]"

definition v_chip :: string where \<comment> \<open>U+30C1 U+30C3 U+30D7, "chip"\<close>
  "v_chip = [CHR 0xE3, CHR 0x83, CHR 0x81, CHR 0xE3, CHR 0x83, CHR 0x83, CHR 0xE3, CHR 0x83,
             CHR 0x97]"

definition v_condenser :: string where
  \<comment> \<open>U+30B3 U+30F3 U+30C7 U+30F3 U+30B5, "capacitor"\<close>
  "v_condenser = [CHR 0xE3, CHR 0x82, CHR 0xB3, CHR 0xE3, CHR 0x83, CHR 0xB3, CHR 0xE3, CHR 0x83,
                  CHR 0x87, CHR 0xE3, CHR 0x83, CHR 0xB3, CHR 0xE3, CHR 0x82, CHR 0xB5]"

definition v_inductor :: string where
  \<comment> \<open>U+30A4 U+30F3 U+30C0 U+30AF U+30BF, "inductor"\<close>
  "v_inductor = [CHR 0xE3, CHR 0x82, CHR 0xA4, CHR 0xE3, CHR 0x83, CHR 0xB3, CHR 0xE3, CHR 0x83,
                 CHR 0x80, CHR 0xE3, CHR 0x82, CHR 0xAF, CHR 0xE3, CHR 0x82, CHR 0xBF]"

definition v_diode :: string where
  \<comment> \<open>U+30C0 U+30A4 U+30AA U+30FC U+30C9, "diode"\<close>
  "v_diode = [CHR 0xE3, CHR 0x83, CHR 0x80, CHR 0xE3, CHR 0x82, CHR 0xA4, CHR 0xE3, CHR 0x82,
              CHR 0xAA, CHR 0xE3, CHR 0x83, CHR 0xBC, CHR 0xE3, CHR 0x83, CHR 0x89]"

definition v_transistor :: string where
  \<comment> \<open>U+30C8 U+30E9 U+30F3 U+30B8 U+30B9 U+30BF, "transistor"\<close>
  "v_transistor = [CHR 0xE3, CHR 0x83, CHR 0x88, CHR 0xE3, CHR 0x83, CHR 0xA9, CHR 0xE3, CHR 0x83,
                   CHR 0xB3, CHR 0xE3, CHR 0x82, CHR 0xB8, CHR 0xE3, CHR 0x82, CHR 0xB9, CHR 0xE3,
                   CHR 0x82, CHR 0xBF]"

definition v_connector :: string where
  \<comment> \<open>U+30B3 U+30CD U+30AF U+30BF, "connector"\<close>
  "v_connector = [CHR 0xE3, CHR 0x82, CHR 0xB3, CHR 0xE3, CHR 0x83, CHR 0x8D, CHR 0xE3, CHR 0x82,
                  CHR 0xAF, CHR 0xE3, CHR 0x82, CHR 0xBF]"

definition v_suishou :: string where \<comment> \<open>U+6C34 U+6676, "quartz"\<close>
  "v_suishou = [CHR 0xE6, CHR 0xB0, CHR 0xB4, CHR 0xE6, CHR 0x99, CHR 0xB6]"

definition v_crystal :: string where
  \<comment> \<open>U+30AF U+30EA U+30B9 U+30BF U+30EB, "crystal"\<close>
  "v_crystal = [CHR 0xE3, CHR 0x82, CHR 0xAF, CHR 0xE3, CHR 0x83, CHR 0xAA, CHR 0xE3, CHR 0x82,
                CHR 0xB9, CHR 0xE3, CHR 0x82, CHR 0xBF, CHR 0xE3, CHR 0x83, CHR 0xAB]"

definition v_shindoushi :: string where \<comment> \<open>U+632F U+52D5 U+5B50, "oscillator"\<close>
  "v_shindoushi = [CHR 0xE6, CHR 0x8C, CHR 0xAF, CHR 0xE5, CHR 0x8B, CHR 0x95, CHR 0xE5, CHR 0xAD,
                   CHR 0x90]"

definition v_bga :: string where
  \<comment> \<open>U+7D44 U+8FBC ( B G A U+4ED6 ), the built-in (BGA and others) package\<close>
  "v_bga = [CHR 0xE7, CHR 0xB5, CHR 0x84, CHR 0xE8, CHR 0xBE, CHR 0xBC] @ ''(BGA''
           @ [CHR 0xE4, CHR 0xBB, CHR 0x96] @ '')''"

section \<open>The component classifier\<close>

text \<open>
  \<open>component_patterns\<close>: for each component type, in the order of the source's table, its
  name, its recognition patterns and its default values. A table of default values is a list
  of pairs of a key and a value, in insertion order.
\<close>

type_synonym defaults = "(string \<times> string) list"

definition type_defaults :: "string \<Rightarrow> string \<Rightarrow> defaults" where
  "type_defaults name package = [(k_hinmei, name), (k_buhin, package), (k_jissou_kensa, v_jissou)]"

definition ref_prefix :: "string \<Rightarrow> rx" where
  \<comment> \<open>\<open>^X\d+\<close>\<close>
  "ref_prefix x = cat [Bol, lit x, rplus (Atom Digit)]"

definition code_prefix :: "string \<Rightarrow> rx" where
  \<comment> \<open>\<open>X\d+\<close>\<close>
  "code_prefix x = cat [lit x, rplus (Atom Digit)]"

definition component_patterns :: "(string \<times> rx list \<times> defaults) list" where
  "component_patterns =
     [(''resistor'',
       [ref_prefix ''R'', code_prefix ''RK'', code_prefix ''RC'', code_prefix ''RF'',
        code_prefix ''RN'', lit ''resistor'', lit v_teikou],
       type_defaults (v_chip @ v_teikou) ''SMD''),
      (''capacitor'',
       [ref_prefix ''C'', code_prefix ''CC'', code_prefix ''CG'', lit ''capacitor'',
        lit v_condenser],
       type_defaults (v_chip @ v_condenser) ''SMD''),
      (''inductor'',
       [ref_prefix ''L'', code_prefix ''LK'', lit ''inductor'', lit v_inductor],
       type_defaults (v_chip @ v_inductor) ''SMD''),
      (''diode'',
       [ref_prefix ''D'', code_prefix ''BAS'', code_prefix ''BAT'', lit ''diode'', lit v_diode],
       type_defaults v_diode ''SMD''),
      (''transistor'',
       [ref_prefix ''Q'', ref_prefix ''T'', code_prefix ''BSS'', code_prefix ''BC'',
        lit ''transistor'', lit v_transistor],
       type_defaults v_transistor ''SMD''),
      (''ic'',
       [ref_prefix ''U'', ref_prefix ''IC'', lit ''ATmega'', code_prefix ''PIC'', lit ''STM32'',
        code_prefix ''LM'', code_prefix ''TL''],
       type_defaults ''IC'' ''SMD''),
      (''connector'',
       [ref_prefix ''J'', ref_prefix ''CN'', ref_prefix ''P'', lit ''connector'', lit v_connector],
       type_defaults v_connector ''DIP''),
      (''crystal'',
       [ref_prefix ''X'', ref_prefix ''Y'', lit ''crystal'', lit v_suishou, lit v_crystal],
       type_defaults (v_suishou @ v_shindoushi) ''SMD'')]"

definition manufacturer_defaults :: "(string \<times> defaults) list" where
  "manufacturer_defaults =
     [(''KOA'', [(k_hinmei, v_chip @ v_teikou)]),
      (''Murata'', [(k_hinmei, v_chip @ v_condenser)]),
      (''TDK'', [(k_hinmei, v_chip @ v_condenser)]),
      (''Panasonic'', [(k_hinmei, v_chip @ v_condenser)]),
      (''Yageo'', [(k_hinmei, v_chip @ v_teikou)]),
      (''Vishay'', [(k_hinmei, v_chip @ v_teikou)])]"

text \<open>\<open>d.update(u)\<close>: the values of \<open>u\<close> replace those of \<open>d\<close>, new keys go to the end.\<close>

definition py_update :: "defaults \<Rightarrow> defaults \<Rightarrow> defaults" where
  "py_update d u =
     map (\<lambda>(k, v). (k, case map_of u k of Some v' \<Rightarrow> v' | None \<Rightarrow> v)) d
     @ filter (\<lambda>(k, v). k \<notin> set (map fst d)) u"

text \<open>The truth value of a Python value in a condition.\<close>

fun truthy :: "pyval \<Rightarrow> bool" where
  "truthy (Str s) = (s \<noteq> [])"
| "truthy (Num i) = (i \<noteq> 0)"

text \<open>
  The two nested loops of \<open>classify_component\<close>, over the component types and over the
  patterns of each: the first type one of whose patterns is found in the text, ignoring
  case.
\<close>

definition first_type_match :: "string \<Rightarrow> (string \<times> rx list \<times> defaults) option" where
  "first_type_match s =
     find (\<lambda>(name, patterns, ds). list_ex (\<lambda>p. search p True s) patterns) component_patterns"

text \<open>\<open>re.search\<close> raises \<open>TypeError\<close> on a subject that is not text.\<close>

definition match_value :: "pyval \<Rightarrow> error + (string \<times> rx list \<times> defaults) option" where
  "match_value v =
     (if truthy v then (case v of Str s \<Rightarrow> Inr (first_type_match s) | Num i \<Rightarrow> Inl TypeError)
      else Inr None)"

definition base_defaults :: defaults where
  "base_defaults = [(k_hinmei, []), (k_buhin, ''SMD''), (k_jissou_kensa, v_jissou)]"

definition classify_component :: "pyval \<Rightarrow> pyval \<Rightarrow> pyval \<Rightarrow> error + defaults" where
  "classify_component part_number manufacturer ref_designator =
     (case match_value ref_designator of
        Inl e \<Rightarrow> Inl e
      | Inr (Some (name, patterns, ds)) \<Rightarrow> Inr (py_update base_defaults ds)
      | Inr None \<Rightarrow>
          (case match_value part_number of
             Inl e \<Rightarrow> Inl e
           | Inr (Some (name, patterns, ds)) \<Rightarrow> Inr (py_update base_defaults ds)
           | Inr None \<Rightarrow>
               Inr (case manufacturer of
                      Str m \<Rightarrow> (case map_of manufacturer_defaults m of
                                   Some ds \<Rightarrow> py_update base_defaults ds
                                 | None \<Rightarrow> base_defaults)
                    | Num i \<Rightarrow> base_defaults)))"

definition detect_package_type :: "string \<Rightarrow> string" where
  "detect_package_type part_number =
     (let part_upper = py_upper part_number in
      if list_ex (\<lambda>p. py_in p part_upper) [''BGA'', ''FBGA'', ''UBGA'', ''CBGA''] then v_bga
      else if list_ex (\<lambda>p. py_in p part_upper)
                [''DIP'', ''PDIP'', ''SOIC'', ''SOP'', ''SSOP'', ''TSSOP'', ''QFP'', ''LQFP'',
                 ''TQFP'']
      then ''DIP''
      else if list_ex (\<lambda>p. py_in p part_upper)
                [''0201'', ''0402'', ''0603'', ''0805'', ''1206'', ''1210'', ''2010'', ''2512'']
      then ''SMD''
      else ''SMD'')"

text \<open>\<open>row_data.get(key, '')\<close>.\<close>

definition get_or_empty :: "row_data \<Rightarrow> string \<Rightarrow> pyval" where
  "get_or_empty d k = (case d k of Some v \<Rightarrow> v | None \<Rightarrow> Str [])"

text \<open>\<open>v.strip()\<close> on a value: an integer has no such method.\<close>

fun strip_value :: "pyval \<Rightarrow> error + string" where
  "strip_value (Str s) = Inr (py_strip s)"
| "strip_value (Num i) = Inl AttributeError"

text \<open>The loop of \<open>enhance_component_data\<close> that applies the defaults, in their order.\<close>

fun apply_defaults :: "defaults \<Rightarrow> row_data \<Rightarrow> error + row_data" where
  "apply_defaults [] d = Inr d"
| "apply_defaults ((key, default_value) # rest) d =
     (case strip_value (get_or_empty d key) of
        Inl e \<Rightarrow> Inl e
      | Inr s \<Rightarrow> apply_defaults rest (if s = [] then d(key \<mapsto> Str default_value) else d))"

definition enhance_component_data :: "row_data \<Rightarrow> error + row_data" where
  "enhance_component_data row_data =
     (let part_number = get_or_empty row_data k_denshi;
          manufacturer = get_or_empty row_data k_maker;
          ref_designator = get_or_empty row_data k_haichi
      in case classify_component part_number manufacturer ref_designator of
           Inl e \<Rightarrow> Inl e
         | Inr ds \<Rightarrow>
             (case apply_defaults ds row_data of
                Inl e \<Rightarrow> Inl e
              | Inr d \<Rightarrow>
                  (case strip_value (get_or_empty d k_buhin) of
                     Inl e \<Rightarrow> Inl e
                   | Inr s \<Rightarrow>
                       if s = []
                       then (case part_number of
                               Str pn \<Rightarrow> Inr (d(k_buhin \<mapsto> Str (detect_package_type pn)))
                             | Num i \<Rightarrow> Inl AttributeError)
                       else Inr d)))"

subsection \<open>Category labels\<close>

definition v_ki :: string where \<comment> \<open>U+5668, "device"\<close>
  "v_ki = [CHR 0xE5, CHR 0x99, CHR 0xA8]"

definition categories :: "(string \<times> string) list" where
  "categories =
     [(''resistor'', v_teikou @ v_ki),
      (''capacitor'', v_condenser),
      (''inductor'', v_inductor),
      (''diode'', v_diode),
      (''transistor'', v_transistor),
      (''ic'', ''IC''),
      (''connector'', v_connector),
      (''crystal'', v_suishou @ v_shindoushi)]"

text \<open>\<open>categories.get(component_type, '')\<close>.\<close>

definition category_of :: "string \<Rightarrow> string" where
  "category_of component_type =
     (case map_of categories component_type of Some c \<Rightarrow> c | None \<Rightarrow> [])"

definition get_component_category :: "pyval \<Rightarrow> pyval \<Rightarrow> error + string" where
  "get_component_category part_number ref_designator =
     (case match_value ref_designator of
        Inl e \<Rightarrow> Inl e
      | Inr (Some (name, patterns, ds)) \<Rightarrow> Inr (category_of name)
      | Inr None \<Rightarrow>
          (case match_value part_number of
             Inl e \<Rightarrow> Inl e
           | Inr (Some (name, patterns, ds)) \<Rightarrow> Inr (category_of name)
           | Inr None \<Rightarrow> Inr []))"

section \<open>The converter\<close>

subsection \<open>Part numbers\<close>

text \<open>The part-number patterns with their base scores, in the order of the source.\<close>

definition patterns :: "(rx \<times> int) list" where
  "patterns =
     [(cat [Rep (Atom Upper) 2 (Some 6), Rep (Atom Digit) 2 (Some 8), rstar (Atom Upper),
            rstar (Atom Digit), rstar (Atom Upper), ropt (Atom (Lit CHR ''-'')),
            rstar (Atom Upper), rstar (Atom Digit)], 20),
      (cat [rplus (Atom Upper), rplus (Atom Digit), rplus (Atom Upper), rplus (Atom Digit),
            rstar (Atom Upper)], 15),
      (cat [Rep (Atom Upper) 3 None, Rep (Atom Digit) 2 None, rstar (Atom Upper)], 10),
      (cat [rplus (Atom Upper), rplus (Atom Digit), rstar (Atom Upper), Atom (Lit CHR ''-''),
            rstar (Atom Upper), rstar (Atom Digit)], 12),
      (cat [rplus (Atom Upper), rplus (Atom Digit)], 5)]"

text \<open>\<open>[A-Z]{2,}.*\d{3,}.*[A-Z]\<close>, the pattern of the bonus.\<close>

definition letters_numbers_letters :: rx where
  "letters_numbers_letters =
     cat [Rep (Atom Upper) 2 None, rstar (Atom Dot), Rep (Atom Digit) 3 None, rstar (Atom Dot),
          Atom Upper]"

text \<open>
  The score of one match. The source searches the bonus pattern without \<open>re.IGNORECASE\<close>.
\<close>

definition current_confidence :: "int \<Rightarrow> string \<Rightarrow> int" where
  "current_confidence base_score m =
     (let c0 = base_score + int (length m);
          c1 = (if search letters_numbers_letters False m then c0 + 10 else c0)
      in if length m > 8 then c1 + 5 else c1)"

text \<open>The state of the scan of a row: \<open>found_part\<close> and \<open>confidence\<close>.\<close>

type_synonym part_state = "string option \<times> int"

definition score_match :: "int \<Rightarrow> string \<Rightarrow> part_state \<Rightarrow> part_state" where
  "score_match base_score m st =
     (if current_confidence base_score m > snd st
      then (Some m, current_confidence base_score m) else st)"

definition skip_labels :: "string list" where
  "skip_labels = [''item'', ''manufacturer'', ''quantity'', ''description'', ''reference'']"

definition scan_cell :: "string \<Rightarrow> part_state \<Rightarrow> part_state" where
  "scan_cell cell_value st =
     (let cell_str = py_strip cell_value in
      if cell_str = [] then st
      else if py_lower cell_str \<in> set skip_labels then st
      else fold (\<lambda>(pattern, base_score). fold (score_match base_score)
                                                  (findall pattern True cell_str))
                patterns st)"

definition scan_row :: "string list \<Rightarrow> part_state" where
  "scan_row row = fold scan_cell row (None, 0)"

definition detect_part_numbers :: "dataframe \<Rightarrow> (nat \<times> string) list" where
  "detect_part_numbers df =
     concat (map (\<lambda>(idx, row). case fst (scan_row row) of
                                   Some found_part \<Rightarrow>
                                     if found_part \<noteq> [] then [(idx, found_part)] else []
                                 | None \<Rightarrow> []) df)"

subsection \<open>Reference designators\<close>

definition ref_token :: rx where
  \<comment> \<open>\<open>[RCLUDQJXYFT]\d+\<close>\<close>
  "ref_token = cat [Atom (OneOf ''RCLUDQJXYFT''), rplus (Atom Digit)]"

definition ref_patterns :: "rx list" where
  "ref_patterns =
     [cat [ref_token, rstar (cat [Atom (OneOf '',;''), rstar (Atom Space), ref_token])],
      cat [ref_token, rstar (cat [rstar (Atom Space), Atom (OneOf '',;''), rstar (Atom Space),
                                  ref_token])],
      cat [ref_token, rstar (cat [Atom (Lit CHR ''-''), ref_token])]]"

text \<open>
  The state of the scan: \<open>best_match\<close> and \<open>max_refs\<close>. The source counts the tokens of a
  match without \<open>re.IGNORECASE\<close>, and extracts those of the best match with it.
\<close>

type_synonym ref_state = "string \<times> nat"

definition count_match :: "string \<Rightarrow> ref_state \<Rightarrow> ref_state" where
  "count_match m st =
     (let ref_count = length (findall ref_token False m) in
      if ref_count > snd st then (m, ref_count) else st)"

definition scan_refs :: "string \<Rightarrow> ref_state \<Rightarrow> ref_state" where
  "scan_refs cell_value st =
     fold (\<lambda>pattern. fold count_match (findall pattern True (py_strip cell_value)))
          ref_patterns st"

definition best_match :: "string list \<Rightarrow> string" where
  "best_match row = fst (fold scan_refs row ([], 0))"

definition row_reference_designators :: "string list \<Rightarrow> string" where
  "row_reference_designators row =
     (if best_match row \<noteq> [] then py_join '','' (findall ref_token True (best_match row))
      else best_match row)"

definition extract_reference_designators :: "dataframe \<Rightarrow> nat \<Rightarrow> error + string" where
  "extract_reference_designators df part_idx =
     (case iloc df part_idx of
        Inl e \<Rightarrow> Inl e
      | Inr row \<Rightarrow> Inr (row_reference_designators row))"

definition count_references :: "string \<Rightarrow> int" where
  "count_references ref_string =
     (if ref_string = [] then 0
      else int (length (filter (\<lambda>r. py_strip r \<noteq> []) (py_split CHR '','' ref_string))))"

subsection \<open>Quantities\<close>

definition calculate_quantity :: "int \<Rightarrow> int option \<Rightarrow> int \<Rightarrow> error + int" where
  "calculate_quantity ref_count required_qty panel_count =
     (if required_qty \<noteq> None \<and> the required_qty > 0
      then (case int_truediv (the required_qty) panel_count of
              Inl e \<Rightarrow> Inl e | Inr q \<Rightarrow> Inr (max 1 q))
      else if ref_count > 0
      then (case int_truediv ref_count panel_count of
              Inl e \<Rightarrow> Inl e | Inr q \<Rightarrow> Inr (max 1 q))
      else Inr 1)"

subsection \<open>Manufacturers\<close>

definition common_manufacturers :: "string list" where
  "common_manufacturers =
     [''KOA'', ''Murata'', ''TDK'', ''Panasonic'', ''Vishay'', ''Yageo'', ''Rohm'',
      ''Taiyo Yuden'', ''Samsung'', ''Nichicon'', ''Rubycon'', ''KEMET'', ''AVX'', ''Bourns'',
      ''Coilcraft'']"

text \<open>
  The inner loop over the names, left by \<open>break\<close> at the first name found in the cell: the
  name it assigns, if any.
\<close>

definition cell_manufacturer :: "string \<Rightarrow> string option" where
  "cell_manufacturer cell_value =
     find (\<lambda>manufacturer. py_in (py_lower manufacturer) (py_lower (py_strip cell_value)))
          common_manufacturers"

text \<open>
  The loop over the cells of a row goes on after the \<open>break\<close>: every cell in which a name
  is found assigns \<open>manufacturers[idx]\<close> again.
\<close>

definition scan_manufacturers :: "nat \<Rightarrow> string list \<Rightarrow> (nat \<rightharpoonup> string) \<Rightarrow> (nat \<rightharpoonup> string)" where
  "scan_manufacturers idx row manufacturers =
     fold (\<lambda>cell_value ms. case cell_manufacturer cell_value of
                              Some manufacturer \<Rightarrow> ms(idx \<mapsto> manufacturer)
                            | None \<Rightarrow> ms)
          row manufacturers"

definition detect_manufacturers :: "dataframe \<Rightarrow> (nat \<rightharpoonup> string)" where
  "detect_manufacturers df = fold (\<lambda>(idx, row). scan_manufacturers idx row) df Map.empty"

subsection \<open>The template mapper\<close>

definition template_row :: "int \<Rightarrow> string \<Rightarrow> string \<Rightarrow> string \<Rightarrow> int \<Rightarrow> int \<Rightarrow> row_data" where
  "template_row idx manufacturer part_number ref_designators qty_1_unit qty_total =
     [k_no \<mapsto> Num idx,
      k_maker \<mapsto> Str manufacturer,
      k_hinmei \<mapsto> Str [],
      k_denshi \<mapsto> Str part_number,
      k_haichi \<mapsto> Str ref_designators,
      k_ko \<mapsto> Num qty_total,
      k_jissousuu \<mapsto> Num qty_1_unit,
      k_goukei \<mapsto> Num qty_total,
      k_jissou_kensa \<mapsto> Str v_jissou,
      k_buhin \<mapsto> Str ''SMD'',
      k_hitsuyou \<mapsto> Num qty_1_unit]"

text \<open>The loop of \<open>map_to_template\<close> over the detected part numbers, numbered from \<open>idx\<close>.\<close>

fun template_data :: "dataframe \<Rightarrow> (nat \<rightharpoonup> string) \<Rightarrow> int \<Rightarrow> int \<Rightarrow> (nat \<times> string) list
                        \<Rightarrow> error + row_data list" where
  "template_data df manufacturers panel_count idx [] = Inr []"
| "template_data df manufacturers panel_count idx ((row_idx, part_number) # rest) =
     (case extract_reference_designators df row_idx of
        Inl e \<Rightarrow> Inl e
      | Inr ref_designators \<Rightarrow>
          (case calculate_quantity (count_references ref_designators) None panel_count of
             Inl e \<Rightarrow> Inl e
           | Inr qty_1_unit \<Rightarrow>
               (case enhance_component_data
                       (template_row idx
                          (case manufacturers row_idx of Some m \<Rightarrow> m | None \<Rightarrow> [])
                          part_number ref_designators qty_1_unit (qty_1_unit * panel_count)) of
                  Inl e \<Rightarrow> Inl e
                | Inr r \<Rightarrow>
                    (case template_data df manufacturers panel_count (idx + 1) rest of
                       Inl e \<Rightarrow> Inl e
                     | Inr rs \<Rightarrow> Inr (r # rs)))))"

definition map_to_template :: "dataframe \<Rightarrow> int \<Rightarrow> error + row_data list" where
  "map_to_template df panel_count =
     template_data df (detect_manufacturers df) panel_count 1 (detect_part_numbers df)"

subsection \<open>The form of the reference designators\<close>



section \<open>Quantities: the rule and the panel count\<close>








section \<open>Worked rows\<close>

text \<open>
  C7. The rows holding \<open>R1;R5; C10\<close>, \<open>R1,R5,C10\<close> and \<open>R1-R5-C10\<close> all give the
  reference designators \<open>R1,R5,C10\<close>.
\<close>

theorem extract_reference_designators_separators:
  "extract_reference_designators [(0, [''R1;R5; C10''])] 0 = Inr ''R1,R5,C10''
   \<and> extract_reference_designators [(0, [''R1,R5,C10''])] 0 = Inr ''R1,R5,C10''
   \<and> extract_reference_designators [(0, [''R1-R5-C10''])] 0 = Inr ''R1,R5,C10''"
  by code_simp

text \<open>
  C1, as the code has it. The row \<open>RK73B2ATTD1002F\<close>, \<open>R1,R5\<close>, \<open>KOA\<close> gives one
  record, with the reference designators \<open>R1,R5\<close>, the manufacturer \<open>KOA\<close>, the display
  name of a chip resistor and the package \<open>SMD\<close>; its part number is
  \<open>RK73B2ATTD1002\<close>, without the final \<open>F\<close>: the first pattern, which scores highest,
  ends in digits.
\<close>

theorem map_to_template_rk73:
  "(case map_to_template [(0, [''RK73B2ATTD1002F'', ''R1,R5'', ''KOA''])] 8 of
      Inr [r] \<Rightarrow> map r [k_denshi, k_haichi, k_maker, k_hinmei, k_buhin]
    | _ \<Rightarrow> [])
   = [Some (Str ''RK73B2ATTD1002''), Some (Str ''R1,R5''), Some (Str ''KOA''),
      Some (Str (v_chip @ v_teikou)), Some (Str ''SMD'')]
   \<and> detect_part_numbers [(0, [''RK73B2ATTD1002F'', ''R1,R5'', ''KOA''])]
       = [(0, ''RK73B2ATTD1002'')]
   \<and> findall (fst (patterns ! 0)) True ''RK73B2ATTD1002F'' = [''RK73B2ATTD1002'']"
  by code_simp

text \<open>
  C5, as the code has it. The match \<open>abc1234d\<close> of the first pattern in the cell
  \<open>abc1234d\<close> has three letters, four digits and a letter, and scores 20 + 8 with no
  bonus, where the same text in upper case scores 20 + 8 + 10.
\<close>

theorem current_confidence_lower_case:
  "findall (fst (patterns ! 0)) True ''abc1234d'' = [''abc1234d'']
   \<and> snd (patterns ! 0) = 20
   \<and> current_confidence 20 ''abc1234d'' = 28
   \<and> current_confidence 20 ''ABC1234D'' = 38
   \<and> scan_row [''abc1234d''] = (Some ''abc1234d'', 28)"
  by code_simp

section \<open>Defaults are applied to empty fields only\<close>

lemma keys_distinct:
  "k_hinmei \<noteq> k_buhin" "k_hinmei \<noteq> k_jissou_kensa" "k_buhin \<noteq> k_jissou_kensa"
  "k_buhin \<noteq> k_hinmei" "k_jissou_kensa \<noteq> k_hinmei" "k_jissou_kensa \<noteq> k_buhin"
  by (simp_all add: k_hinmei_def k_buhin_def k_jissou_kensa_def)

lemma quantity_keys:
  "k_jissousuu \<notin> {k_hinmei, k_buhin, k_jissou_kensa}"
  "k_goukei \<notin> {k_hinmei, k_buhin, k_jissou_kensa}"
  by (simp_all add: k_hinmei_def k_buhin_def k_jissou_kensa_def k_jissousuu_def k_goukei_def)

lemma get_or_empty_upd:
  "get_or_empty (d(k \<mapsto> v)) k' = (if k' = k then v else get_or_empty d k')"
  by (simp add: get_or_empty_def)

text \<open>The loop changes a key only if it is one of the defaults and its field was blank.\<close>

lemma apply_defaults_frame:
  "apply_defaults ds d = Inr d' \<Longrightarrow>
     d' k = d k \<or> (k \<in> fst ` set ds \<and> strip_value (get_or_empty d k) = Inr [])"
proof (induction ds arbitrary: d)
  case Nil
  then show ?case by simp
next
  case (Cons a ds)
  obtain key dv where a: "a = (key, dv)" by (cases a)
  from Cons.prems a obtain s where
    s: "strip_value (get_or_empty d key) = Inr s" and
    rest: "apply_defaults ds (if s = [] then d(key \<mapsto> Str dv) else d) = Inr d'"
    by (auto split: sum.splits)
  let ?d1 = "if s = [] then d(key \<mapsto> Str dv) else d"
  from Cons.IH [OF rest] have
    ih: "d' k = ?d1 k \<or> (k \<in> fst ` set ds \<and> strip_value (get_or_empty ?d1 k) = Inr [])" .
  show ?case
  proof (cases "k = key \<and> s = []")
    case True
    with s a show ?thesis by simp
  next
    case False
    then have "?d1 k = d k" and "get_or_empty ?d1 k = get_or_empty d k"
      by (auto simp: get_or_empty_def)
    with ih a show ?thesis by auto
  qed
qed

text \<open>With distinct keys, a blank field gets its default.\<close>

lemma apply_defaults_fills:
  "apply_defaults ds d = Inr d' \<Longrightarrow> distinct (map fst ds) \<Longrightarrow> (k, v) \<in> set ds \<Longrightarrow>
     strip_value (get_or_empty d k) = Inr [] \<Longrightarrow> d' k = Some (Str v)"
proof (induction ds arbitrary: d)
  case Nil
  then show ?case by simp
next
  case (Cons a ds)
  obtain key dv where a: "a = (key, dv)" by (cases a)
  from Cons.prems(1) a obtain s where
    s: "strip_value (get_or_empty d key) = Inr s" and
    rest: "apply_defaults ds (if s = [] then d(key \<mapsto> Str dv) else d) = Inr d'"
    by (auto split: sum.splits)
  show ?case
  proof (cases "k = key")
    case True
    with Cons.prems(2,3) a have v: "v = dv" and notin: "k \<notin> fst ` set ds"
      by (auto simp: image_iff)
    from True s Cons.prems(4) have "s = []" by simp
    with rest have "apply_defaults ds (d(key \<mapsto> Str dv)) = Inr d'" by simp
    from apply_defaults_frame [OF this, of k] notin True v show ?thesis by simp
  next
    case False
    with Cons.prems(3) a have mem: "(k, v) \<in> set ds" by simp
    from False Cons.prems(4)
    have "strip_value (get_or_empty (if s = [] then d(key \<mapsto> Str dv) else d) k) = Inr []"
      by (simp add: get_or_empty_def)
    with Cons.IH [OF rest _ mem] Cons.prems(2) show ?thesis by simp
  qed
qed

text \<open>If the loop returns, every field under a default key was text (or absent).\<close>

lemma apply_defaults_text:
  "apply_defaults ds d = Inr d' \<Longrightarrow> k \<in> fst ` set ds \<Longrightarrow>
     \<exists>s. strip_value (get_or_empty d k) = Inr s"
proof (induction ds arbitrary: d)
  case Nil
  then show ?case by simp
next
  case (Cons a ds)
  obtain key dv where a: "a = (key, dv)" by (cases a)
  from Cons.prems(1) a obtain s where
    s: "strip_value (get_or_empty d key) = Inr s" and
    rest: "apply_defaults ds (if s = [] then d(key \<mapsto> Str dv) else d) = Inr d'"
    by (auto split: sum.splits)
  show ?case
  proof (cases "k = key")
    case True
    with s show ?thesis by simp
  next
    case False
    with Cons.prems(2) a have "k \<in> fst ` set ds" by auto
    from Cons.IH [OF rest this] False show ?thesis
      by (simp add: get_or_empty_def split: if_splits)
  qed
qed

subsection \<open>What the classification returns\<close>

lemma component_patterns_defaults:
  assumes "(name, ps, ds) \<in> set component_patterns"
  shows "\<exists>nm pk. ds = type_defaults nm pk \<and> (pk = ''DIP'' \<or> pk = ''SMD'')
           \<and> (pk = ''DIP'' \<longleftrightarrow> name = ''connector'')
           \<and> (category_of name = v_connector \<longleftrightarrow> name = ''connector'')"
proof -
  have cats: "category_of ''resistor'' \<noteq> v_connector" "category_of ''capacitor'' \<noteq> v_connector"
    "category_of ''inductor'' \<noteq> v_connector" "category_of ''diode'' \<noteq> v_connector"
    "category_of ''transistor'' \<noteq> v_connector" "category_of ''ic'' \<noteq> v_connector"
    "category_of ''connector'' = v_connector" "category_of ''crystal'' \<noteq> v_connector"
    by (simp_all add: category_of_def categories_def v_connector_def v_teikou_def v_ki_def
        v_condenser_def v_inductor_def v_diode_def v_transistor_def v_suishou_def
        v_shindoushi_def)
  from assms have
    "(name, ds) \<in> {(''resistor'', type_defaults (v_chip @ v_teikou) ''SMD''),
                   (''capacitor'', type_defaults (v_chip @ v_condenser) ''SMD''),
                   (''inductor'', type_defaults (v_chip @ v_inductor) ''SMD''),
                   (''diode'', type_defaults v_diode ''SMD''),
                   (''transistor'', type_defaults v_transistor ''SMD''),
                   (''ic'', type_defaults ''IC'' ''SMD''),
                   (''connector'', type_defaults v_connector ''DIP''),
                   (''crystal'', type_defaults (v_suishou @ v_shindoushi) ''SMD'')}"
    unfolding component_patterns_def by auto
  with cats show ?thesis
    by (elim insertE emptyE) (simp; blast)+
qed

lemma first_type_match_mem:
  "first_type_match s = Some e \<Longrightarrow> e \<in> set component_patterns"
  by (auto simp: first_type_match_def find_Some_iff dest: nth_mem)

lemma match_value_mem:
  "match_value v = Inr (Some e) \<Longrightarrow> e \<in> set component_patterns"
  by (cases v) (auto simp: match_value_def first_type_match_mem split: if_splits)

lemma py_update_type_defaults:
  "py_update base_defaults (type_defaults nm pk) = type_defaults nm pk"
  by (simp add: py_update_def base_defaults_def type_defaults_def keys_distinct)

lemma py_update_manufacturer:
  "map_of manufacturer_defaults m = Some ds \<Longrightarrow>
     \<exists>nm. py_update base_defaults ds = type_defaults nm ''SMD''"
proof -
  assume "map_of manufacturer_defaults m = Some ds"
  then have "(m, ds) \<in> set manufacturer_defaults" by (rule map_of_SomeD)
  then have "\<exists>nm. ds = [(k_hinmei, nm)]"
    by (auto simp: manufacturer_defaults_def)
  then show ?thesis
    by (auto simp: py_update_def base_defaults_def type_defaults_def keys_distinct)
qed

text \<open>
  The classification returns the three defaults, with package \<open>DIP\<close> exactly when the
  category found is the connector, and \<open>SMD\<close> otherwise.
\<close>

lemma classify_component_shape:
  assumes "classify_component pn mf rd = Inr ds"
  shows "\<exists>nm pk. ds = type_defaults nm pk \<and> (pk = ''DIP'' \<or> pk = ''SMD'')
           \<and> (pk = ''DIP'' \<longleftrightarrow> get_component_category pn rd = Inr v_connector)"
proof (cases "match_value rd")
  case (Inl e)
  with assms show ?thesis by (simp add: classify_component_def)
next
  case rd: (Inr m)
  show ?thesis
  proof (cases m)
    case (Some e)
    obtain name ps ds' where e: "e = (name, ps, ds')" by (cases e)
    from rd Some have "e \<in> set component_patterns" by (simp add: match_value_mem)
    from component_patterns_defaults [OF this [unfolded e]] obtain nm pk where
      shape: "ds' = type_defaults nm pk" "pk = ''DIP'' \<or> pk = ''SMD''"
        "pk = ''DIP'' \<longleftrightarrow> name = ''connector''"
        "category_of name = v_connector \<longleftrightarrow> name = ''connector''"
      by blast
    from assms rd Some e shape(1) have "ds = type_defaults nm pk"
      by (simp add: classify_component_def py_update_type_defaults)
    moreover from rd Some e have "get_component_category pn rd = Inr (category_of name)"
      by (simp add: get_component_category_def)
    ultimately show ?thesis using shape(2,3,4) by auto
  next
    case None
    note rd_none = None
    show ?thesis
    proof (cases "match_value pn")
      case (Inl e)
      with assms rd rd_none show ?thesis by (simp add: classify_component_def)
    next
      case pn: (Inr m')
      show ?thesis
      proof (cases m')
        case (Some e)
        obtain name ps ds' where e: "e = (name, ps, ds')" by (cases e)
        from pn Some have "e \<in> set component_patterns" by (simp add: match_value_mem)
        from component_patterns_defaults [OF this [unfolded e]] obtain nm pk where
          shape: "ds' = type_defaults nm pk" "pk = ''DIP'' \<or> pk = ''SMD''"
            "pk = ''DIP'' \<longleftrightarrow> name = ''connector''"
            "category_of name = v_connector \<longleftrightarrow> name = ''connector''"
          by blast
        from assms rd rd_none pn Some e shape(1) have "ds = type_defaults nm pk"
          by (simp add: classify_component_def py_update_type_defaults)
        moreover from rd rd_none pn Some e
        have "get_component_category pn rd = Inr (category_of name)"
          by (simp add: get_component_category_def)
        ultimately show ?thesis using shape(2,3,4) by auto
      next
        case None
        have conn: "v_connector \<noteq> []" by (simp add: v_connector_def)
        have base: "base_defaults = type_defaults [] ''SMD''"
          by (simp add: base_defaults_def type_defaults_def)
        from assms rd rd_none pn None
        have "\<exists>nm. ds = type_defaults nm ''SMD''"
          using py_update_manufacturer base
          by (auto simp: classify_component_def split: pyval.splits option.splits)
        moreover from rd rd_none pn None conn
        have "get_component_category pn rd \<noteq> Inr v_connector"
          by (simp add: get_component_category_def)
        ultimately show ?thesis by auto
      qed
    qed
  qed
qed

subsection \<open>The enhancement of a record\<close>

text \<open>
  After the defaults the package field is never blank, so the package detection that follows
  the loop adds nothing: the record returned is the one the loop leaves.
\<close>

lemma smd_dip_not_blank:
  "py_strip ''SMD'' = ''SMD''" "py_strip ''DIP'' = ''DIP''"
  by code_simp+

lemma enhance_component_data_is_loop:
  assumes "enhance_component_data d = Inr d'"
  shows "\<exists>ds nm pk.
           classify_component (get_or_empty d k_denshi) (get_or_empty d k_maker)
             (get_or_empty d k_haichi) = Inr ds
         \<and> ds = type_defaults nm pk \<and> (pk = ''DIP'' \<or> pk = ''SMD'')
         \<and> (pk = ''DIP'' \<longleftrightarrow>
              get_component_category (get_or_empty d k_denshi) (get_or_empty d k_haichi)
                = Inr v_connector)
         \<and> apply_defaults ds d = Inr d'"
proof -
  from assms obtain ds d1 s where
    cl: "classify_component (get_or_empty d k_denshi) (get_or_empty d k_maker)
           (get_or_empty d k_haichi) = Inr ds" and
    loop: "apply_defaults ds d = Inr d1" and
    s: "strip_value (get_or_empty d1 k_buhin) = Inr s" and
    res: "(if s = []
           then (case get_or_empty d k_denshi of
                   Str pn \<Rightarrow> Inr (d1(k_buhin \<mapsto> Str (detect_package_type pn)))
                 | Num i \<Rightarrow> Inl AttributeError)
           else Inr d1) = Inr d'"
    by (auto simp: enhance_component_data_def Let_def split: sum.splits)
  from classify_component_shape [OF cl] obtain nm pk where
    shape: "ds = type_defaults nm pk" "pk = ''DIP'' \<or> pk = ''SMD''"
      "pk = ''DIP'' \<longleftrightarrow>
         get_component_category (get_or_empty d k_denshi) (get_or_empty d k_haichi)
           = Inr v_connector"
    by blast
  have mem: "(k_buhin, pk) \<in> set ds" and dist: "distinct (map fst ds)"
    and key: "k_buhin \<in> fst ` set ds"
    using shape(1) by (simp_all add: type_defaults_def keys_distinct)
  from apply_defaults_text [OF loop key] obtain s0 where
    s0: "strip_value (get_or_empty d k_buhin) = Inr s0" by blast
  have "s \<noteq> []"
  proof (cases "s0 = []")
    case True
    with apply_defaults_fills [OF loop dist mem] s0 have "d1 k_buhin = Some (Str pk)" by simp
    with s shape(2) show ?thesis
      by (auto simp: get_or_empty_def smd_dip_not_blank)
  next
    case False
    with apply_defaults_frame [OF loop, of k_buhin] s0 have "d1 k_buhin = d k_buhin" by simp
    then have "get_or_empty d1 k_buhin = get_or_empty d k_buhin"
      by (simp add: get_or_empty_def)
    with s s0 False show ?thesis by simp
  qed
  with res have "d1 = d'" by simp
  with cl loop shape show ?thesis by blast
qed





section \<open>The quantities of an output record\<close>

lemma calculate_quantity_at_least_1:
  "calculate_quantity ref_count required_qty panel_count = Inr q \<Longrightarrow> 1 \<le> q"
  by (auto simp: calculate_quantity_def split: if_splits sum.splits)

lemma calculate_quantity_returns:
  "panel_count \<noteq> 0 \<Longrightarrow> \<exists>q. calculate_quantity ref_count required_qty panel_count = Inr q"
  by (simp add: calculate_quantity_def int_truediv_def)

lemma template_row_quantities:
  "template_row idx mf pn refs q1 qt k_jissousuu = Some (Num q1)"
  "template_row idx mf pn refs q1 qt k_goukei = Some (Num qt)"
  by (simp_all add: template_row_def k_jissousuu_def k_goukei_def k_jissou_kensa_def
      k_buhin_def k_hitsuyou_def)

lemma enhance_component_data_quantities:
  assumes "enhance_component_data d = Inr d'"
  shows "d' k_jissousuu = d k_jissousuu" and "d' k_goukei = d k_goukei"
proof -
  from enhance_component_data_is_loop [OF assms] obtain ds nm pk where
    ds: "ds = type_defaults nm pk" and loop: "apply_defaults ds d = Inr d'"
    by blast
  have keys: "fst ` set ds = {k_hinmei, k_buhin, k_jissou_kensa}"
    using ds by (simp add: type_defaults_def)
  from apply_defaults_frame [OF loop, of k_jissousuu] keys quantity_keys(1)
  show "d' k_jissousuu = d k_jissousuu" by simp
  from apply_defaults_frame [OF loop, of k_goukei] keys quantity_keys(2)
  show "d' k_goukei = d k_goukei" by simp
qed

lemma template_data_quantities:
  "template_data df ms panel_count idx ps = Inr rows \<Longrightarrow> r \<in> set rows \<Longrightarrow>
     \<exists>q. r k_jissousuu = Some (Num q) \<and> 1 \<le> q \<and> r k_goukei = Some (Num (q * panel_count))"
proof (induction ps arbitrary: idx rows)
  case Nil
  then show ?case by simp
next
  case (Cons p ps)
  obtain row_idx part_number where p: "p = (row_idx, part_number)" by (cases p)
  from Cons.prems(1) p obtain refs q1 r0 rs where
    q1: "calculate_quantity (count_references refs) None panel_count = Inr q1" and
    r0: "enhance_component_data
           (template_row idx (case ms row_idx of Some m \<Rightarrow> m | None \<Rightarrow> [])
              part_number refs q1 (q1 * panel_count)) = Inr r0" and
    rs: "template_data df ms panel_count (idx + 1) ps = Inr rs" and
    rows: "rows = r0 # rs"
    by (auto split: sum.splits)
  show ?case
  proof (cases "r = r0")
    case True
    from enhance_component_data_quantities [OF r0] calculate_quantity_at_least_1 [OF q1] True
    show ?thesis by (simp add: template_row_quantities)
  next
    case False
    with Cons.prems(2) rows have "r \<in> set rs" by simp
    from Cons.IH [OF rs this] show ?thesis .
  qed
qed

text \<open>
  C9. In every record that \<open>map_to_template\<close> returns for a panel count of at least 1,
  the quantity per unit is at least 1 and the total is the quantity per unit times the
  panel count.
\<close>

theorem map_to_template_quantities:
  assumes "1 \<le> panel_count"
    and "map_to_template df panel_count = Inr rows"
    and "r \<in> set rows"
  shows "\<exists>q. r k_jissousuu = Some (Num q) \<and> 1 \<le> q
             \<and> r k_goukei = Some (Num (q * panel_count))"
  using assms(2,3) unfolding map_to_template_def by (rule template_data_quantities)

theorem map_to_template_quantities_witness:
  "(1::int) \<le> 2
   \<and> (\<exists>rows r. map_to_template [(0, [''GRM188R71H104KA93D'', ''C1,C2,C3,C4,C5,C6'', ''Murata''])] 2
                  = Inr rows
         \<and> r \<in> set rows \<and> r k_jissousuu = Some (Num 3) \<and> r k_goukei = Some (Num 6))"
proof -
  let ?df = "[(0, [''GRM188R71H104KA93D'', ''C1,C2,C3,C4,C5,C6'', ''Murata''])]"
  have "(case map_to_template ?df 2 of
           Inr [r] \<Rightarrow> r k_jissousuu = Some (Num 3) | _ \<Rightarrow> False)"
    by code_simp
  then obtain r where rows: "map_to_template ?df 2 = Inr [r]"
    and unit: "r k_jissousuu = Some (Num 3)"
    by (auto split: sum.splits list.splits)
  have "r \<in> set [r]" by simp
  from map_to_template_quantities [OF _ rows this] unit
  have "r k_goukei = Some (Num 6)" by auto
  with rows unit show ?thesis by auto
qed

section \<open>The manufacturer of a row\<close>


lemma cell_manufacturer_none:
  "\<forall>n \<in> set common_manufacturers. \<not> py_in (py_lower n) (py_lower (py_strip c)) \<Longrightarrow>
     cell_manufacturer c = None"
  by (simp add: cell_manufacturer_def find_None_iff)

lemma scan_manufacturers_other:
  "idx' \<noteq> idx \<Longrightarrow> scan_manufacturers idx' row ms idx = ms idx"
  unfolding scan_manufacturers_def
  by (induction row arbitrary: ms) (simp_all split: option.splits)

lemma scan_manufacturers_none:
  "\<forall>c \<in> set row. cell_manufacturer c = None \<Longrightarrow> scan_manufacturers idx row ms = ms"
  unfolding scan_manufacturers_def
  by (induction row arbitrary: ms) simp_all


lemma scan_manufacturers_Cons:
  "scan_manufacturers idx (c # row) ms =
     scan_manufacturers idx row
       (case cell_manufacturer c of Some m \<Rightarrow> ms(idx \<mapsto> m) | None \<Rightarrow> ms)"
  by (simp add: scan_manufacturers_def)

lemma scan_manufacturers_same:
  "ms idx = ms' idx \<Longrightarrow>
     scan_manufacturers idx row ms idx = scan_manufacturers idx row ms' idx"
proof (induction row arbitrary: ms ms')
  case Nil
  then show ?case by (simp add: scan_manufacturers_def)
next
  case (Cons c row)
  show ?case
  proof (cases "cell_manufacturer c")
    case None
    from Cons.IH [of ms ms'] Cons.prems have
      "scan_manufacturers idx row ms idx = scan_manufacturers idx row ms' idx" by blast
    with None show ?thesis by (simp only: scan_manufacturers_Cons option.case)
  next
    case (Some m)
    have "(ms(idx \<mapsto> m)) idx = (ms'(idx \<mapsto> m)) idx" by simp
    with Cons.IH [of "ms(idx \<mapsto> m)" "ms'(idx \<mapsto> m)"] have
      "scan_manufacturers idx row (ms(idx \<mapsto> m)) idx
         = scan_manufacturers idx row (ms'(idx \<mapsto> m)) idx" by blast
    with Some show ?thesis by (simp only: scan_manufacturers_Cons option.case)
  qed
qed

lemma detect_manufacturers_row:
  assumes "distinct (map fst df)" and "(idx, row) \<in> set df"
  shows "detect_manufacturers df idx = scan_manufacturers idx row Map.empty idx"
proof -
  have other: "fold (\<lambda>(i, row). scan_manufacturers i row) d ms idx = ms idx"
    if "idx \<notin> fst ` set d" for d ms
    using that
  proof (induction d arbitrary: ms)
    case Nil
    then show ?case by simp
  next
    case (Cons a d)
    obtain i r where a: "a = (i, r)" by (cases a)
    with Cons.prems have ne: "i \<noteq> idx" and rest: "idx \<notin> fst ` set d" by auto
    from Cons.IH [OF rest, of "scan_manufacturers i r ms"] a
      scan_manufacturers_other [OF ne, of r ms]
    show ?case by simp
  qed
  from assms(2) obtain d1 d2 where df: "df = d1 @ (idx, row) # d2"
    by (meson split_list)
  with assms(1) have n1: "idx \<notin> fst ` set d1" and n2: "idx \<notin> fst ` set d2"
    by auto
  let ?ms1 = "fold (\<lambda>(i, row). scan_manufacturers i row) d1 Map.empty"
  have "detect_manufacturers df idx
          = fold (\<lambda>(i, row). scan_manufacturers i row) d2 (scan_manufacturers idx row ?ms1) idx"
    by (simp add: detect_manufacturers_def df)
  also have "\<dots> = scan_manufacturers idx row ?ms1 idx"
    by (rule other [OF n2])
  also have "\<dots> = scan_manufacturers idx row Map.empty idx"
    by (rule scan_manufacturers_same) (rule other [OF n1])
  finally show ?thesis .
qed

lemma detect_manufacturers_none:
  assumes "distinct (map fst df)" and "(idx, row) \<in> set df"
    and "\<forall>c \<in> set row. \<forall>n \<in> set common_manufacturers.
           \<not> py_in (py_lower n) (py_lower (py_strip c))"
  shows "detect_manufacturers df idx = None"
proof -
  from assms(3) have "\<forall>c \<in> set row. cell_manufacturer c = None"
    by (simp add: cell_manufacturer_none)
  from scan_manufacturers_none [OF this, of idx Map.empty]
    detect_manufacturers_row [OF assms(1,2)]
  show ?thesis by simp
qed




section \<open>The reference designators of a row\<close>

subsection \<open>Splitting what was joined\<close>




subsection \<open>The matches of the token pattern\<close>





subsection \<open>The matches that the scan of a text collects\<close>




subsection \<open>The best match of a row\<close>









section \<open>When the mapper returns\<close>

text \<open>
  The enhancement of a record raises only on a value that is not text under one of the keys
  it reads; the mapper raises only on a panel count of 0 or on a row label that is not a
  position of the grid.
\<close>

lemma classify_component_returns:
  "\<exists>ds. classify_component (Str p) (Str m) (Str r) = Inr ds"
  by (auto simp: classify_component_def match_value_def split: option.splits)

lemma apply_defaults_returns:
  "\<forall>k \<in> fst ` set ds. \<exists>s. get_or_empty d k = Str s \<Longrightarrow> \<exists>d'. apply_defaults ds d = Inr d'"
proof (induction ds arbitrary: d)
  case Nil
  then show ?case by simp
next
  case (Cons a ds)
  obtain key dv where a: "a = (key, dv)" by (cases a)
  from Cons.prems a obtain s where s: "get_or_empty d key = Str s" by auto
  let ?d1 = "if py_strip s = [] then d(key \<mapsto> Str dv) else d"
  from Cons.prems a have "\<forall>k \<in> fst ` set ds. \<exists>s. get_or_empty ?d1 k = Str s"
    by (auto simp: get_or_empty_def)
  from Cons.IH [OF this] a s show ?case by simp
qed

lemma enhance_component_data_returns:
  assumes "\<forall>k \<in> {k_denshi, k_maker, k_haichi, k_hinmei, k_buhin, k_jissou_kensa}.
             \<exists>s. get_or_empty d k = Str s"
  shows "\<exists>d'. enhance_component_data d = Inr d'"
proof -
  from assms obtain p m r where
    read: "get_or_empty d k_denshi = Str p" "get_or_empty d k_maker = Str m"
      "get_or_empty d k_haichi = Str r"
    by auto
  from classify_component_returns obtain ds where
    cl: "classify_component (Str p) (Str m) (Str r) = Inr ds" by blast
  from classify_component_shape [OF cl] obtain nm pk where
    ds: "ds = type_defaults nm pk" and pk: "pk = ''DIP'' \<or> pk = ''SMD''" by blast
  have keys: "fst ` set ds = {k_hinmei, k_buhin, k_jissou_kensa}"
    using ds by (simp add: type_defaults_def)
  with assms have "\<forall>k \<in> fst ` set ds. \<exists>s. get_or_empty d k = Str s" by simp
  from apply_defaults_returns [OF this] obtain d1 where
    loop: "apply_defaults ds d = Inr d1" by blast
  from assms obtain s0 where s0: "get_or_empty d k_buhin = Str s0" by auto
  have mem: "(k_buhin, pk) \<in> set ds" and dist: "distinct (map fst ds)"
    using ds by (simp_all add: type_defaults_def keys_distinct)
  have "\<exists>s. get_or_empty d1 k_buhin = Str s"
  proof (cases "py_strip s0 = []")
    case True
    with apply_defaults_fills [OF loop dist mem] s0 show ?thesis
      by (simp add: get_or_empty_def)
  next
    case False
    with apply_defaults_frame [OF loop, of k_buhin] s0 have "d1 k_buhin = d k_buhin" by simp
    with s0 show ?thesis by (simp add: get_or_empty_def)
  qed
  then obtain s1 where s1: "get_or_empty d1 k_buhin = Str s1" by blast
  from read cl loop s1 show ?thesis
    by (simp add: enhance_component_data_def)
qed

lemma template_row_text:
  "\<forall>k \<in> {k_denshi, k_maker, k_haichi, k_hinmei, k_buhin, k_jissou_kensa}.
     \<exists>s. get_or_empty (template_row idx mf pn refs q1 qt) k = Str s"
  by (simp add: template_row_def get_or_empty_def k_no_def k_maker_def k_hinmei_def
      k_denshi_def k_haichi_def k_ko_def k_jissousuu_def k_goukei_def k_jissou_kensa_def
      k_buhin_def k_hitsuyou_def)

lemma template_data_returns:
  assumes "panel_count \<noteq> 0" and "\<forall>(row_idx, pn) \<in> set ps. row_idx < length df"
  shows "\<exists>rows. template_data df ms panel_count idx ps = Inr rows \<and> length rows = length ps"
  using assms(2)
proof (induction ps arbitrary: idx)
  case Nil
  then show ?case by simp
next
  case (Cons p ps)
  obtain row_idx part_number where p: "p = (row_idx, part_number)" by (cases p)
  with Cons.prems have "row_idx < length df" by simp
  then obtain refs where refs: "extract_reference_designators df row_idx = Inr refs"
    by (simp add: extract_reference_designators_def iloc_def)
  from calculate_quantity_returns [OF assms(1)] obtain q1 where
    q1: "calculate_quantity (count_references refs) None panel_count = Inr q1" by blast
  from enhance_component_data_returns [OF template_row_text] obtain r0 where
    r0: "enhance_component_data
           (template_row idx (case ms row_idx of Some m \<Rightarrow> m | None \<Rightarrow> [])
              part_number refs q1 (q1 * panel_count)) = Inr r0"
    by blast
  from Cons.prems have "\<forall>(row_idx, pn) \<in> set ps. row_idx < length df" by simp
  from Cons.IH [OF this, of "idx + 1"] obtain rs where
    "template_data df ms panel_count (idx + 1) ps = Inr rs" "length rs = length ps" by blast
  with p refs q1 r0 show ?case by simp
qed

lemma detect_part_numbers_labels:
  "(row_idx, pn) \<in> set (detect_part_numbers df) \<Longrightarrow> row_idx \<in> fst ` set df"
  by (force simp: detect_part_numbers_def split: option.splits if_splits)

lemma map_to_template_returns:
  assumes "panel_count \<noteq> 0" and "map fst df = [0..<length df]"
  shows "\<exists>rows. map_to_template df panel_count = Inr rows
           \<and> length rows = length (detect_part_numbers df)"
proof -
  have "fst ` set df = {0..<length df}"
    using assms(2) by (metis atLeastLessThan_upt set_map)
  with detect_part_numbers_labels [of _ _ df]
  have "\<forall>(row_idx, pn) \<in> set (detect_part_numbers df). row_idx < length df"
    by fastforce
  from template_data_returns [OF assms(1) this] show ?thesis
    by (simp add: map_to_template_def)
qed

section \<open>The model of text and patterns\<close>

text \<open>
  The case mapping moves an ASCII letter by 32, as Python's does; and the bound on the rounds
  of a repetition never cuts a repetition short: rounds beyond the length of the subject
  change nothing.
\<close>

lemma to_lower_adds_32:
  "is_upper c \<Longrightarrow> (of_char (to_lower c) :: nat) = of_char c + 32"
proof -
  have "list_all (\<lambda>c. is_upper c \<longrightarrow> (of_char (to_lower c) :: nat) = of_char c + 32) Enum.enum"
    by code_simp
  then show "is_upper c \<Longrightarrow> (of_char (to_lower c) :: nat) = of_char c + 32"
    by (simp add: list_all_iff enum_UNIV)
qed

lemma to_upper_subtracts_32:
  "is_lower c \<Longrightarrow> (of_char (to_upper c) :: nat) = of_char c - 32"
proof -
  have "list_all (\<lambda>c. is_lower c \<longrightarrow> (of_char (to_upper c) :: nat) = of_char c - 32) Enum.enum"
    by code_simp
  then show "is_lower c \<Longrightarrow> (of_char (to_upper c) :: nat) = of_char c - 32"
    by (simp add: list_all_iff enum_UNIV)
qed

lemma iter_fuel_step:
  assumes shrink: "\<And>s t. t \<in> set (f s) \<Longrightarrow> length t \<le> length s"
  shows "length s \<le> k \<Longrightarrow> (\<forall>h. hi = Some h \<longrightarrow> lo \<le> h) \<Longrightarrow>
           iter f (Suc k) lo hi s = iter f k lo hi s"
proof (induction k arbitrary: s lo hi)
  case 0
  then show ?case by (cases hi) auto
next
  case (Suc k)
  have "iter f (Suc k) (lo - 1) (map_option (\<lambda>h. h - 1) hi) t
          = iter f k (lo - 1) (map_option (\<lambda>h. h - 1) hi) t"
    if "t \<in> set (filter (\<lambda>t. length t < length s) (f s))" for t
  proof -
    from that Suc.prems(1) have "length t \<le> k" by simp
    moreover from Suc.prems(2)
    have "\<forall>h. map_option (\<lambda>h. h - 1) hi = Some h \<longrightarrow> lo - 1 \<le> h" by auto
    ultimately show ?thesis by (rule Suc.IH)
  qed
  then have "map (iter f (Suc k) (lo - 1) (map_option (\<lambda>h. h - 1) hi))
                 (filter (\<lambda>t. length t < length s) (f s))
             = map (iter f k (lo - 1) (map_option (\<lambda>h. h - 1) hi))
                 (filter (\<lambda>t. length t < length s) (f s))"
    by (rule map_cong [OF refl])
  then show ?case
    by (simp only: iter.simps(2) [of f "Suc k"] iter.simps(2) [of f k])
qed

lemma iter_fuel:
  assumes "\<And>s t. t \<in> set (f s) \<Longrightarrow> length t \<le> length s"
    and "\<forall>h. hi = Some h \<longrightarrow> lo \<le> h"
  shows "iter f (length s + extra) lo hi s = iter f (length s) lo hi s"
proof (induction extra)
  case 0
  then show ?case by simp
next
  case (Suc extra)
  have "iter f (Suc (length s + extra)) lo hi s = iter f (length s + extra) lo hi s"
    using assms by (intro iter_fuel_step) simp_all
  with Suc show ?case by simp
qed

end
